theory Spec2Isabelle
  imports Main
begin

section \<open>The health endpoint of backend/app/routers/health.py\<close>

text \<open>
  The module under verification:
  \<^verbatim>\<open>
  from fastapi import APIRouter
  from ..models.domain import HealthResponse

  router = APIRouter(prefix="/health", tags=["health"])

  @router.api_route("", methods=["GET", "HEAD"], response_model=HealthResponse)
  async def health() -> HealthResponse:
      return HealthResponse()
  \<close>
  It makes three calls: the class \<open>HealthResponse\<close> with no argument, the constructor
  \<open>APIRouter\<close> and the decorator \<open>api_route\<close>. The sections below give each of them a
  meaning, then the module itself, then the way a router answers a request.
\<close>

subsection \<open>The class HealthResponse\<close>

text \<open>
  Modelled from the spec: the class \<open>HealthResponse\<close> of models/domain.py is imported by
  the module and is not among the sources. The spec describes it as a record with a fixed
  set of fields that carry default values, whose values it leaves open. The declaration is
  therefore a parameter of the model: the list of the field names, in the order of their
  declaration, each with its declared default (\<open>None\<close> for a field declared without one).
  An instance is the list of the fields with their values.
\<close>

type_synonym 'v model_class = "(string \<times> 'v option) list"

type_synonym 'v model_object = "(string \<times> 'v) list"

datatype error = ValidationError string

text \<open>
  Calling a class with keyword arguments: a field takes the argument of its name, else its
  default; a field with neither is reported as missing and the call raises. The first
  missing field is the one reported.
\<close>

fun field_value :: "(string \<times> 'v) list \<Rightarrow> string \<times> 'v option \<Rightarrow> string + 'v" where
  "field_value kwargs (n, d) =
     (case map_of kwargs n of
        Some v \<Rightarrow> Inr v
      | None \<Rightarrow> (case d of Some v \<Rightarrow> Inr v | None \<Rightarrow> Inl n))"

fun construct :: "'v model_class \<Rightarrow> (string \<times> 'v) list \<Rightarrow> error + 'v model_object" where
  "construct [] kwargs = Inr []"
| "construct (f # fs) kwargs =
     (case field_value kwargs f of
        Inl n \<Rightarrow> Inl (ValidationError n)
      | Inr v \<Rightarrow>
          (case construct fs kwargs of
             Inl e \<Rightarrow> Inl e
           | Inr obj \<Rightarrow> Inr ((fst f, v) # obj)))"

text \<open>The instance whose fields all hold their declared defaults.\<close>

definition default_fields :: "'v model_class \<Rightarrow> 'v model_object" where
  "default_fields cls = [(n, v). (n, Some v) \<leftarrow> cls]"

text \<open>Whether a class declares a default for each of its fields.\<close>

definition all_defaults :: "'v model_class \<Rightarrow> bool" where
  "all_defaults cls = list_all (\<lambda>f. snd f \<noteq> None) cls"

subsection \<open>Routers and routes\<close>

text \<open>
  A route holds what the decorator is given: the path, the methods, the declared status
  code (\<open>None\<close> when the decorator names none), the response model and the endpoint. An
  endpoint is a computation over the state of the process (type \<open>'w\<close>: everything outside
  the object it returns), which returns an instance or raises.
\<close>

type_synonym ('v, 'w) endpoint = "'w \<Rightarrow> (error + 'v model_object) \<times> 'w"

record ('v, 'w) api_route =
  path :: string
  methods :: "string list"
  status_code :: "nat option"
  response_model :: "'v model_class option"
  endpoint :: "('v, 'w) endpoint"

record ('v, 'w) api_router =
  prefix :: string
  tags :: "string list"
  redirect_slashes :: bool
  routes :: "('v, 'w) api_route list"

text \<open>
  \<open>APIRouter(prefix=p, tags=ts)\<close>: a router with no route. The arguments the call leaves
  out keep the constructor's defaults; of these the model holds \<open>redirect_slashes\<close>,
  whose default is \<open>True\<close>.
\<close>

definition APIRouter :: "string \<Rightarrow> string list \<Rightarrow> ('v, 'w) api_router" where
  "APIRouter p ts = \<lparr>prefix = p, tags = ts, redirect_slashes = True, routes = []\<rparr>"

text \<open>
  \<open>@r.api_route(sub, methods=ms, response_model=rm)\<close> applied to the function \<open>f\<close>: the
  router gains, after its other routes, a route for \<open>f\<close> at the router's prefix followed
  by \<open>sub\<close>. The decorator of the module names no status code.
\<close>

definition api_route ::
  "('v, 'w) api_router \<Rightarrow> string \<Rightarrow> string list \<Rightarrow> 'v model_class \<Rightarrow> ('v, 'w) endpoint
     \<Rightarrow> ('v, 'w) api_router" where
  "api_route r sub ms rm f =
     r\<lparr>routes := routes r @
        [\<lparr>path = prefix r @ sub, methods = ms, status_code = None,
          response_model = Some rm, endpoint = f\<rparr>]\<rparr>"

subsection \<open>The module\<close>

text \<open>
  \<open>health\<close> takes no argument and has one statement: it returns \<open>HealthResponse()\<close>.
  The state of the process is passed through as it is.
\<close>

definition health :: "'v model_class \<Rightarrow> ('v, 'w) endpoint" where
  "health HealthResponse w = (construct HealthResponse [], w)"

definition router :: "'v model_class \<Rightarrow> ('v, 'w) api_router" where
  "router HealthResponse =
     api_route (APIRouter ''/health'' [''health'']) '''' [''GET'', ''HEAD'']
       HealthResponse (health HealthResponse)"

subsection \<open>Answering a request\<close>

text \<open>
  The module registers a route and leaves the answering of requests to the framework
  (FastAPI, on Starlette's router), which is a dependency and not code of the repository.
  This subsection states the framework's behaviour for routes whose path has no parameter,
  as far as the properties below need it: the choice of a route, the status codes 200,
  405, 307 and 404, and the call of the endpoint.

  The request as the router receives it. Only the method and the path take part in the
  choice of a route; an endpoint is called with the parameters its signature declares,
  and \<open>health\<close> declares none.
\<close>

record request =
  req_method :: string
  req_path :: string
  req_headers :: "(string \<times> string) list"
  req_query :: "(string \<times> string) list"
  req_body :: string

datatype 'a response =
    Response (status: nat) 'a
  | RedirectResponse (status: nat) string
  | ErrorResponse (status: nat)

text \<open>
  A route whose path has no parameter matches the paths equal to it: fully when the
  method is one of the route's, partially when only the path agrees.
\<close>

datatype match = NONE | PARTIAL | FULL

definition matches :: "('v, 'w) api_route \<Rightarrow> string \<Rightarrow> string \<Rightarrow> match" where
  "matches rt m p =
     (if p = path rt
      then (if methods rt \<noteq> [] \<and> m \<notin> set (methods rt) then PARTIAL else FULL)
      else NONE)"

text \<open>
  A matched route calls its endpoint. What the endpoint returns is the content of the
  response, under the declared status code, 200 when none is declared; what it raises is
  raised to the caller. Serialisation through the response model and the omission of the
  body on the wire for HEAD are the framework's and are not part of the model.
\<close>

definition route_handle ::
  "('v, 'w) api_route \<Rightarrow> 'w \<Rightarrow> (error + 'v model_object response) \<times> 'w" where
  "route_handle rt w =
     (case endpoint rt w of
        (Inl e, w') \<Rightarrow> (Inl e, w')
      | (Inr obj, w') \<Rightarrow>
          (Inr (Response (case status_code rt of None \<Rightarrow> 200 | Some c \<Rightarrow> c) obj), w'))"

text \<open>
  The path the router tries when no route matches and \<open>redirect_slashes\<close> is set: the
  request's path without its trailing slashes, or with one added when it has none.
\<close>

definition rstrip_slash :: "string \<Rightarrow> string" where
  "rstrip_slash p = rev (dropWhile (\<lambda>c. c = CHR ''/'') (rev p))"

definition redirect_path :: "string \<Rightarrow> string" where
  "redirect_path p = (if p \<noteq> [] \<and> last p = CHR ''/'' then rstrip_slash p else p @ ''/'')"

text \<open>
  The router's answer: the first route that matches fully handles the request; failing
  that, a route that matches partially answers 405 (method not allowed); failing that,
  with \<open>redirect_slashes\<close> set and a path other than \<open>/\<close>, a route matching the redirect
  path gives a redirect (status 307) to it; and otherwise the answer is 404.
\<close>

definition handle ::
  "('v, 'w) api_router \<Rightarrow> request \<Rightarrow> 'w \<Rightarrow> (error + 'v model_object response) \<times> 'w" where
  "handle r q w =
     (case find (\<lambda>rt. matches rt (req_method q) (req_path q) = FULL) (routes r) of
        Some rt \<Rightarrow> route_handle rt w
      | None \<Rightarrow>
          (if list_ex (\<lambda>rt. matches rt (req_method q) (req_path q) = PARTIAL) (routes r)
           then (Inr (ErrorResponse 405), w)
           else if redirect_slashes r \<and> req_path q \<noteq> ''/'' \<and>
                   list_ex (\<lambda>rt. matches rt (req_method q) (redirect_path (req_path q)) \<noteq> NONE)
                     (routes r)
           then (Inr (RedirectResponse 307 (redirect_path (req_path q))), w)
           else (Inr (ErrorResponse 404), w)))"

text \<open>Requests answered one after the other, each from the state the one before left.\<close>

fun serve ::
  "('v, 'w) api_router \<Rightarrow> request list \<Rightarrow> 'w \<Rightarrow> (error + 'v model_object response) list \<times> 'w" where
  "serve r [] w = ([], w)"
| "serve r (q # qs) w =
     (case handle r q w of
        (a, w') \<Rightarrow> (case serve r qs w' of (as, w'') \<Rightarrow> (a # as, w'')))"

section \<open>Properties\<close>

subsection \<open>Construction\<close>

lemma construct_no_args:
  "all_defaults cls \<Longrightarrow> construct cls [] = Inr (default_fields cls)"
  by (induction cls) (auto simp: all_defaults_def default_fields_def)

lemma construct_returns_defaults:
  "construct cls [] = Inr obj \<Longrightarrow> obj = default_fields cls"
  by (induction cls arbitrary: obj)
     (auto simp: default_fields_def split: option.splits sum.splits)

subsection \<open>Registration\<close>

lemma routes_router:
  "routes (router cls) =
     [\<lparr>path = ''/health'', methods = [''GET'', ''HEAD''], status_code = None,
       response_model = Some cls, endpoint = health cls\<rparr>]"
  by (simp add: router_def api_route_def APIRouter_def)

subsection \<open>What the router answers\<close>

lemma matches_health_route:
  "matches \<lparr>path = ''/health'', methods = [''GET'', ''HEAD''], status_code = sc,
      response_model = rm, endpoint = f\<rparr> m p =
     (if p = ''/health'' then (if m = ''GET'' \<or> m = ''HEAD'' then FULL else PARTIAL) else NONE)"
  by (auto simp: matches_def)

lemma route_handle_health:
  "route_handle \<lparr>path = pa, methods = ms, status_code = None, response_model = rm,
      endpoint = health cls\<rparr> w = (map_sum id (Response 200) (construct cls []), w)"
  by (simp add: route_handle_def health_def split: sum.splits)

lemma router_flag: "(router cls)\<lparr>redirect_slashes := True\<rparr> = router cls"
  by (simp add: router_def api_route_def APIRouter_def)

lemma handle_router_flag:
  "handle ((router cls)\<lparr>redirect_slashes := b\<rparr>) q w =
     (if req_path q = ''/health'' then
        (if req_method q = ''GET'' \<or> req_method q = ''HEAD''
         then (map_sum id (Response 200) (construct cls []), w)
         else (Inr (ErrorResponse 405), w))
      else if b \<and> req_path q \<noteq> ''/'' \<and> redirect_path (req_path q) = ''/health''
      then (Inr (RedirectResponse 307 ''/health''), w)
      else (Inr (ErrorResponse 404), w))"
  by (auto simp: handle_def routes_router matches_health_route route_handle_health)

lemma handle_router:
  "handle (router cls) q w =
     (if req_path q = ''/health'' then
        (if req_method q = ''GET'' \<or> req_method q = ''HEAD''
         then (map_sum id (Response 200) (construct cls []), w)
         else (Inr (ErrorResponse 405), w))
      else if req_path q \<noteq> ''/'' \<and> redirect_path (req_path q) = ''/health''
      then (Inr (RedirectResponse 307 ''/health''), w)
      else (Inr (ErrorResponse 404), w))"
  using handle_router_flag [where b = True and cls = cls and q = q and w = w]
  by (simp add: router_flag)

lemma rstrip_slash_append:
  "rstrip_slash (xs @ ys) =
     (if list_all (\<lambda>c. c = CHR ''/'') ys then rstrip_slash xs else xs @ rstrip_slash ys)"
  by (auto simp: rstrip_slash_def dropWhile_append list_all_iff)

lemma rstrip_slash_empty: "rstrip_slash ys = [] \<longleftrightarrow> list_all (\<lambda>c. c = CHR ''/'') ys"
  by (auto simp: rstrip_slash_def list_all_iff)

lemma rstrip_slash_health: "rstrip_slash ''/health'' = ''/health''"
  by (simp add: rstrip_slash_def)

lemma redirect_path_sub:
  "redirect_path (''/health/'' @ rest) = ''/health'' \<longleftrightarrow> list_all (\<lambda>c. c = CHR ''/'') rest"
proof (cases "list_all (\<lambda>c. c = CHR ''/'') rest")
  case True
  have "last (''/health/'' @ rest) = CHR ''/''"
    using True by (cases rest rule: rev_cases) (auto simp: list_all_iff)
  moreover have "rstrip_slash (''/health/'' @ rest) = ''/health''"
    using True rstrip_slash_append [of "''/health''" "CHR ''/'' # rest"]
    by (simp add: rstrip_slash_health)
  ultimately show ?thesis using True by (simp add: redirect_path_def)
next
  case False
  have "rstrip_slash rest \<noteq> []" using False by (simp add: rstrip_slash_empty)
  moreover have "rstrip_slash (''/health/'' @ rest) = ''/health/'' @ rstrip_slash rest"
    using False rstrip_slash_append [of "''/health/''" rest] by simp
  ultimately have "rstrip_slash (''/health/'' @ rest) \<noteq> ''/health''" by simp
  then show ?thesis using False by (simp add: redirect_path_def)
qed

lemma handle_state: "snd (handle (router cls) q w) = w"
  by (simp add: handle_router)

lemma serve_router:
  "\<forall>q\<in>set qs. (req_method q = ''GET'' \<or> req_method q = ''HEAD'') \<and> req_path q = ''/health'' \<Longrightarrow>
   serve (router cls) qs w =
     (replicate (length qs) (map_sum id (Response 200) (construct cls [])), w)"
  by (induction qs arbitrary: w) (auto simp: handle_router)

lemma serve_state: "snd (serve (router cls) qs w) = w"
proof (induction qs arbitrary: w)
  case Nil
  show ?case by simp
next
  case (Cons q qs)
  obtain a w' where h: "handle (router cls) q w = (a, w')"
    by (cases "handle (router cls) q w")
  obtain as w'' where s: "serve (router cls) qs w' = (as, w'')"
    by (cases "serve (router cls) qs w'")
  have "w' = w" using h handle_state [of cls q w] by simp
  moreover have "w'' = w'" using s Cons.IH [of w'] by simp
  ultimately show ?case using h s by simp
qed

section \<open>The claims\<close>

text \<open>
  Claim C1. A GET or HEAD request to the path \<open>/health\<close> is answered by \<open>health\<close>,
  which returns the object \<open>HealthResponse()\<close>: every field holds its declared default,
  and this object is the whole content of the response. The class is taken to declare a
  default for each of its fields.
\<close>

theorem health_returns_default_response:
  assumes "req_method q = ''GET'' \<or> req_method q = ''HEAD''"
    and "req_path q = ''/health''"
    and "all_defaults HealthResponse"
  shows "fst (health HealthResponse w) = Inr (default_fields HealthResponse) \<and>
         (\<exists>c. fst (handle (router HealthResponse) q w) =
                Inr (Response c (default_fields HealthResponse)))"
  using assms by (auto simp: health_def handle_router construct_no_args)

theorem health_returns_default_response_witness:
  "fst (health [(''status'', Some ''ok'')] ()) = Inr [(''status'', ''ok'')] \<and>
   (\<exists>c. fst (handle (router [(''status'', Some ''ok'')])
            \<lparr>req_method = ''HEAD'', req_path = ''/health'', req_headers = [],
             req_query = [], req_body = ''''\<rparr> ()) =
          Inr (Response c [(''status'', ''ok'')]))"
  using health_returns_default_response
    [of "\<lparr>req_method = ''HEAD'', req_path = ''/health'', req_headers = [],
             req_query = [], req_body = ''''\<rparr>" "[(''status'', Some ''ok'')]" "()"]
  by (simp add: all_defaults_def default_fields_def)

text \<open>
  Claim C2. The route declares no status code, and a GET or HEAD request to \<open>/health\<close>
  is answered with status 200. The class is taken to declare a default for each of its
  fields, so that the construction returns.
\<close>

theorem health_status_200:
  assumes "req_method q = ''GET'' \<or> req_method q = ''HEAD''"
    and "req_path q = ''/health''"
    and "all_defaults HealthResponse"
  shows "map status_code (routes (router HealthResponse)) = [None] \<and>
         (\<exists>r. fst (handle (router HealthResponse) q w) = Inr r \<and> status r = 200)"
  using assms by (auto simp: routes_router handle_router construct_no_args)

theorem health_status_200_witness:
  "map status_code (routes (router [(''status'', Some ''ok'')])) = [None] \<and>
   (\<exists>r. fst (handle (router [(''status'', Some ''ok'')])
            \<lparr>req_method = ''GET'', req_path = ''/health'', req_headers = [],
             req_query = [], req_body = ''''\<rparr> ()) = Inr r \<and> status r = 200)"
  using health_status_200
    [of "\<lparr>req_method = ''GET'', req_path = ''/health'', req_headers = [],
             req_query = [], req_body = ''''\<rparr>" "[(''status'', Some ''ok'')]" "()"]
  by (simp add: all_defaults_def)

text \<open>
  Claim C3. The router has the prefix \<open>/health\<close> and one route: its path is the prefix
  followed by the empty sub-path, that is \<open>/health\<close>, its methods are GET and HEAD and no
  other, and its endpoint is \<open>health\<close>.
\<close>

theorem health_route_registration:
  "prefix (router HealthResponse) = ''/health'' \<and>
   map path (routes (router HealthResponse)) = [prefix (router HealthResponse) @ ''''] \<and>
   map (\<lambda>rt. (path rt, set (methods rt), endpoint rt)) (routes (router HealthResponse)) =
     [(''/health'', {''GET'', ''HEAD''}, health HealthResponse)]"
  by (simp add: router_def api_route_def APIRouter_def)

text \<open>
  Claim C4. The handler has no failure of its own: its outcome is the outcome of the
  construction \<open>HealthResponse()\<close>, and when the class declares a default for each of
  its fields the construction returns an object, so the handler raises nothing.
\<close>

theorem health_never_raises:
  assumes "all_defaults HealthResponse"
  shows "fst (health HealthResponse w) = construct HealthResponse [] \<and>
         (\<exists>obj. fst (health HealthResponse w) = Inr obj)"
  using assms by (simp add: health_def construct_no_args)

theorem health_never_raises_witness:
  "fst (health [(''status'', Some ''ok'')] ()) = construct [(''status'', Some ''ok'')] [] \<and>
   (\<exists>obj. fst (health [(''status'', Some ''ok'')] ()) = Inr obj)"
  using health_never_raises [of "[(''status'', Some ''ok'')]" "()"]
  by (simp add: all_defaults_def)

text \<open>
  Claim C5. Whatever the number and the order of the GET and HEAD requests to \<open>/health\<close>
  served one after the other, each of them gets the same answer: the value \<open>health\<close>
  returns, which is the same in every state of the process.
\<close>

theorem health_calls_identical:
  assumes "\<forall>q\<in>set qs. (req_method q = ''GET'' \<or> req_method q = ''HEAD'') \<and> req_path q = ''/health''"
  shows "fst (serve (router HealthResponse) qs w) =
           replicate (length qs) (map_sum id (Response 200) (fst (health HealthResponse w')))"
  using assms by (simp add: serve_router health_def)

theorem health_calls_identical_witness:
  "fst (serve (router [(''status'', Some ''ok'')])
      [\<lparr>req_method = ''GET'', req_path = ''/health'', req_headers = [],
         req_query = [], req_body = ''''\<rparr>,
       \<lparr>req_method = ''HEAD'', req_path = ''/health'', req_headers = [(''accept'', ''*/*'')],
         req_query = [], req_body = ''''\<rparr>,
       \<lparr>req_method = ''GET'', req_path = ''/health'', req_headers = [],
         req_query = [(''verbose'', ''1'')], req_body = ''''\<rparr>] (0::nat)) =
     [Inr (Response 200 [(''status'', ''ok'')]), Inr (Response 200 [(''status'', ''ok'')]),
      Inr (Response 200 [(''status'', ''ok'')])]"
  using health_calls_identical
    [of "[\<lparr>req_method = ''GET'', req_path = ''/health'', req_headers = [],
         req_query = [], req_body = ''''\<rparr>,
       \<lparr>req_method = ''HEAD'', req_path = ''/health'', req_headers = [(''accept'', ''*/*'')],
         req_query = [], req_body = ''''\<rparr>,
       \<lparr>req_method = ''GET'', req_path = ''/health'', req_headers = [],
         req_query = [(''verbose'', ''1'')], req_body = ''''\<rparr>]"
       "[(''status'', Some ''ok'')]" "0::nat" "0::nat"]
  by (simp add: health_def)

text \<open>
  Claim C6. Two requests to \<open>/health\<close>, each with GET or HEAD, get the same answer
  whatever their headers, query parameters and bodies, and whatever the states of the
  process they are served in.
\<close>

theorem health_noninterference:
  assumes "req_method q1 = ''GET'' \<or> req_method q1 = ''HEAD''"
    and "req_path q1 = ''/health''"
    and "req_method q2 = ''GET'' \<or> req_method q2 = ''HEAD''"
    and "req_path q2 = ''/health''"
  shows "fst (handle (router HealthResponse) q1 w1) = fst (handle (router HealthResponse) q2 w2)"
  using assms by (auto simp: handle_router)

theorem health_noninterference_witness:
  "fst (handle (router [(''status'', Some ''ok'')])
      \<lparr>req_method = ''GET'', req_path = ''/health'', req_headers = [(''x-probe'', ''a'')],
       req_query = [(''deep'', ''1'')], req_body = ''ping''\<rparr> (0::nat)) =
   fst (handle (router [(''status'', Some ''ok'')])
      \<lparr>req_method = ''HEAD'', req_path = ''/health'', req_headers = [],
       req_query = [], req_body = ''''\<rparr> (1::nat))"
  using health_noninterference
    [of "\<lparr>req_method = ''GET'', req_path = ''/health'', req_headers = [(''x-probe'', ''a'')],
       req_query = [(''deep'', ''1'')], req_body = ''ping''\<rparr>"
       "\<lparr>req_method = ''HEAD'', req_path = ''/health'', req_headers = [],
       req_query = [], req_body = ''''\<rparr>"
       "[(''status'', Some ''ok'')]" "0::nat" "1::nat"]
  by simp

text \<open>
  Claim C7. A call of \<open>health\<close> leaves the state of the process as it was, and so does
  the answering of a request, or of any number of requests, by the router.
\<close>

theorem health_no_side_effects:
  "snd (health HealthResponse w) = w \<and>
   snd (handle (router HealthResponse) q w) = w \<and>
   snd (serve (router HealthResponse) qs w) = w"
  by (simp add: health_def handle_state serve_state)

text \<open>
  Claim C8, as stated: a GET request to \<open>/health/\<close> is answered with 404. The router of
  the module is built with the constructor's \<open>redirect_slashes\<close>, so the request, which
  matches no route, is answered with a redirect to \<open>/health\<close>, the path without its
  trailing slash, which does match one.
\<close>

theorem trailing_slash_redirected:
  "fst (handle (router [(''status'', Some ''ok'')])
      \<lparr>req_method = ''GET'', req_path = ''/health/'', req_headers = [],
       req_query = [], req_body = ''''\<rparr> ()) = Inr (RedirectResponse 307 ''/health'') \<and>
   fst (handle (router [(''status'', Some ''ok'')])
      \<lparr>req_method = ''GET'', req_path = ''/health/'', req_headers = [],
       req_query = [], req_body = ''''\<rparr> ()) \<noteq> Inr (ErrorResponse 404)"
  by (simp add: handle_router redirect_path_def rstrip_slash_def)

text \<open>
  Claim C8, amended. A request to \<open>/health/\<close> or to any path under it matches no route,
  so \<open>health\<close> is not called. The answer is 404, except for a path made of \<open>/health\<close>
  and slashes only on a router with \<open>redirect_slashes\<close> set, where it is a redirect
  (status 307) to \<open>/health\<close>.
\<close>

theorem sub_path_not_routed:
  "find (\<lambda>rt. matches rt m (''/health/'' @ rest) \<noteq> NONE) (routes (router HealthResponse)) = None \<and>
   handle ((router HealthResponse)\<lparr>redirect_slashes := b\<rparr>)
      \<lparr>req_method = m, req_path = ''/health/'' @ rest, req_headers = hs,
       req_query = qs, req_body = bd\<rparr> w =
     (Inr (if b \<and> list_all (\<lambda>c. c = CHR ''/'') rest
           then RedirectResponse 307 ''/health'' else ErrorResponse 404), w)"
  using redirect_path_sub [of rest]
  by (simp add: routes_router matches_health_route handle_router_flag)

text \<open>
  Claim C10. A request to \<open>/health\<close> with a method other than GET and HEAD matches the
  route by its path only: no route matches it fully, so \<open>health\<close> is not called, and the
  answer is 405 (method not allowed) in place of the health payload.
\<close>

theorem other_method_rejected:
  assumes "m \<noteq> ''GET''" and "m \<noteq> ''HEAD''"
  shows "find (\<lambda>rt. matches rt m ''/health'' = FULL) (routes (router HealthResponse)) = None \<and>
         handle (router HealthResponse)
           \<lparr>req_method = m, req_path = ''/health'', req_headers = hs,
            req_query = qs, req_body = bd\<rparr> w = (Inr (ErrorResponse 405), w)"
  using assms by (simp add: routes_router matches_health_route handle_router)

theorem other_method_rejected_witness:
  "find (\<lambda>rt. matches rt ''POST'' ''/health'' = FULL)
      (routes (router [(''status'', Some ''ok'')])) = None \<and>
   handle (router [(''status'', Some ''ok'')])
     \<lparr>req_method = ''POST'', req_path = ''/health'', req_headers = [],
      req_query = [], req_body = ''{}''\<rparr> () = (Inr (ErrorResponse 405), ())"
  using other_method_rejected [of "''POST''" "[(''status'', Some ''ok'')]" "[]" "[]" "''{}''" "()"]
  by simp

end
